theory Spec2Isabelle
  imports Complex_Main "HOL-Library.Word" "HOL-Library.Sublist"
begin

section \<open>JavaScript values\<close>

text \<open>
  A JavaScript string is a sequence of UTF-16 code units. \<open>value.length\<close> and
  \<open>split("")\<close> count code units; \<open>for (const ch of value)\<close> and \<open>[...value]\<close> walk
  code points, pairing a high surrogate with the low surrogate that follows it.
\<close>

type_synonym jsstring = "16 word list"

definition js :: "string \<Rightarrow> jsstring" where
  "js s = map (\<lambda>c. of_nat (of_char c)) s"

text \<open>
  A JavaScript number is an IEEE double. Every finite double is a rational; the two
  zeros are identified (no comparison of the program tells them apart).
\<close>

datatype jsnum = Fin rat | PosInf | NegInf | NaN

text \<open>\<open>a < b\<close> on numbers: false as soon as one side is \<open>NaN\<close>.\<close>

fun js_lt :: "jsnum \<Rightarrow> jsnum \<Rightarrow> bool" where
  "js_lt (Fin a) (Fin b) = (a < b)"
| "js_lt (Fin a) PosInf = True"
| "js_lt NegInf (Fin b) = True"
| "js_lt NegInf PosInf = True"
| "js_lt _ _ = False"

text \<open>\<open>a === b\<close> on numbers: \<open>NaN\<close> equals nothing, itself included.\<close>

definition js_strict_eq :: "jsnum \<Rightarrow> jsnum \<Rightarrow> bool" where
  "js_strict_eq a b = (a \<noteq> NaN \<and> b \<noteq> NaN \<and> a = b)"

definition isNaN :: "jsnum \<Rightarrow> bool" where
  "isNaN x = (x = NaN)"

text \<open>
  The functions of the JavaScript runtime that the program calls and whose tables are
  not part of the repository. Every definition below takes them as the parameter \<open>B\<close>,
  and every theorem holds for all of them.
  \<^item> \<open>toLowerCase\<close>: \<open>String.prototype.toLowerCase\<close> (the Unicode case mapping);
  \<^item> \<open>sha256_hex\<close>: \<open>crypto.createHash("sha256").update(s).digest("hex")\<close>;
  \<^item> \<open>StringToNumber\<close>: \<open>Number(s)\<close> on a string;
  \<^item> \<open>ToDouble\<close>: the double nearest to a rational, asked only outside the range
    where doubles are exact on integers; \<open>None\<close> when the rational is beyond the
    largest double and rounds to an infinity;
  \<^item> \<open>decode_escapes\<close>: \<open>decodeURIComponent\<close> on a string that holds a \<open>%\<close>
    (\<open>None\<close> is the \<open>URIError\<close>).
\<close>

record builtins =
  toLowerCase :: "jsstring \<Rightarrow> jsstring"
  sha256_hex :: "jsstring \<Rightarrow> jsstring"
  StringToNumber :: "jsstring \<Rightarrow> jsnum"
  ToDouble :: "rat \<Rightarrow> rat option"
  decode_escapes :: "jsstring \<Rightarrow> jsstring option"

text \<open>Integers up to \<open>2^53\<close> in absolute value are doubles; sums that stay there are exact.\<close>

definition safe_integer :: "rat \<Rightarrow> bool" where
  "safe_integer q = (of_int \<lfloor>q\<rfloor> = q \<and> \<bar>q\<bar> \<le> 2 ^ 53)"

definition to_number :: "builtins \<Rightarrow> rat \<Rightarrow> jsnum" where
  "to_number B q =
     (if safe_integer q then Fin q
      else case ToDouble B q of Some d \<Rightarrow> Fin d
           | None \<Rightarrow> if 0 < q then PosInf else NegInf)"

fun js_add :: "builtins \<Rightarrow> jsnum \<Rightarrow> jsnum \<Rightarrow> jsnum" where
  "js_add B (Fin a) (Fin b) = to_number B (a + b)"
| "js_add B NaN _ = NaN"
| "js_add B _ NaN = NaN"
| "js_add B PosInf NegInf = NaN"
| "js_add B NegInf PosInf = NaN"
| "js_add B PosInf _ = PosInf"
| "js_add B _ PosInf = PosInf"
| "js_add B NegInf _ = NegInf"
| "js_add B _ NegInf = NegInf"

fun js_neg :: "jsnum \<Rightarrow> jsnum" where
  "js_neg (Fin a) = Fin (- a)"
| "js_neg PosInf = NegInf"
| "js_neg NegInf = PosInf"
| "js_neg NaN = NaN"

definition js_sub :: "builtins \<Rightarrow> jsnum \<Rightarrow> jsnum \<Rightarrow> jsnum" where
  "js_sub B a b = js_add B a (js_neg b)"

section \<open>Characters\<close>

definition is_digit :: "16 word \<Rightarrow> bool" where
  \<comment> \<open>\<open>\d\<close> of a regular expression without the \<open>u\<close> flag: \<open>0\<close> to \<open>9\<close>\<close>
  "is_digit u = (0x30 \<le> u \<and> u \<le> 0x39)"

definition is_word_char :: "16 word \<Rightarrow> bool" where
  \<comment> \<open>\<open>\w\<close>: letters, digits and the underscore of ASCII\<close>
  "is_word_char u =
     ((0x41 \<le> u \<and> u \<le> 0x5A) \<or> (0x61 \<le> u \<and> u \<le> 0x7A) \<or> is_digit u \<or> u = 0x5F)"

definition is_space :: "16 word \<Rightarrow> bool" where
  \<comment> \<open>\<open>\s\<close>, and what \<open>trim\<close> removes: white space and line terminators\<close>
  "is_space u =
     ((0x09 \<le> u \<and> u \<le> 0x0D) \<or> u = 0x20 \<or> u = 0xA0 \<or> u = 0x1680
      \<or> (0x2000 \<le> u \<and> u \<le> 0x200A) \<or> u = 0x2028 \<or> u = 0x2029 \<or> u = 0x202F
      \<or> u = 0x205F \<or> u = 0x3000 \<or> u = 0xFEFF)"

definition is_high_surrogate :: "16 word \<Rightarrow> bool" where
  "is_high_surrogate u = (0xD800 \<le> u \<and> u \<le> 0xDBFF)"

definition is_low_surrogate :: "16 word \<Rightarrow> bool" where
  "is_low_surrogate u = (0xDC00 \<le> u \<and> u \<le> 0xDFFF)"

section \<open>String operations\<close>

text \<open>The string iterator: one string per code point, a lone surrogate on its own.\<close>

fun code_points :: "jsstring \<Rightarrow> jsstring list" where
  "code_points [] = []"
| "code_points [u] = [[u]]"
| "code_points (u # v # rest) =
     (if is_high_surrogate u \<and> is_low_surrogate v then [u, v] # code_points rest
      else [u] # code_points (v # rest))"

definition split_units :: "jsstring \<Rightarrow> jsstring list" where
  \<comment> \<open>\<open>s.split("")\<close>: one string per code unit\<close>
  "split_units s = map (\<lambda>u. [u]) s"

definition join_empty :: "jsstring list \<Rightarrow> jsstring" where
  \<comment> \<open>\<open>xs.join("")\<close>\<close>
  "join_empty xs = concat xs"

definition trim :: "jsstring \<Rightarrow> jsstring" where
  "trim s = rev (dropWhile is_space (rev (dropWhile is_space s)))"

text \<open>
  \<open>s.split(/\s+/)\<close>: the pieces between the maximal runs of white space, an empty piece
  before a leading run and after a trailing one.
\<close>

function split_spaces :: "jsstring \<Rightarrow> jsstring list" where
  "split_spaces s =
     (let piece = takeWhile (\<lambda>u. \<not> is_space u) s;
          rest = dropWhile (\<lambda>u. \<not> is_space u) s
      in if rest = [] then [piece] else piece # split_spaces (dropWhile is_space rest))"
  by pat_completeness auto
termination
proof (relation "measure length")
  show "wf (measure (length :: jsstring \<Rightarrow> nat))" by simp
next
  fix s :: jsstring and piece rest
  assume r: "rest = dropWhile (\<lambda>u. \<not> is_space u) s" and ne: "rest \<noteq> []"
  from ne obtain x xs where c: "rest = x # xs" by (cases rest) auto
  have "length (dropWhile is_space rest) \<le> length xs"
  proof -
    have "dropWhile (\<lambda>u. \<not> is_space u) s \<noteq> []" using ne r by simp
    then have "\<not> \<not> is_space (hd (dropWhile (\<lambda>u. \<not> is_space u) s))"
      by (rule hd_dropWhile)
    then have "is_space x" using c r by simp
    then show ?thesis using c by (simp add: length_dropWhile_le)
  qed
  moreover have "length rest \<le> length s" using r by (simp add: length_dropWhile_le)
  ultimately show "(dropWhile is_space rest, s) \<in> measure length" using c by simp
qed

declare split_spaces.simps [simp del]

section \<open>Property Analyzer\<close>

record PropertySet =
  p_length :: nat
  p_is_palindrome :: bool
  p_unique_characters :: nat
  p_word_count :: nat
  p_sha256_hash :: jsstring
  p_character_frequency_map :: "jsstring \<rightharpoonup> nat"

definition bump :: "(jsstring \<rightharpoonup> nat) \<Rightarrow> jsstring \<Rightarrow> (jsstring \<rightharpoonup> nat)" where
  \<comment> \<open>\<open>m[ch] = (m[ch] || 0) + 1\<close>\<close>
  "bump m ch = m(ch \<mapsto> (case m ch of None \<Rightarrow> 0 | Some c \<Rightarrow> c) + 1)"

definition frequency_map :: "jsstring \<Rightarrow> (jsstring \<rightharpoonup> nat)" where
  \<comment> \<open>the loop \<open>for (const ch of value)\<close> over an object that starts empty\<close>
  "frequency_map s = foldl bump Map.empty (code_points s)"

text \<open>
  \<open>computeProperties\<close> is called on strings only (the caller checks \<open>typeof\<close> first), so
  its \<open>TypeError\<close> branch is excluded by the type of the argument.
\<close>

definition computeProperties :: "builtins \<Rightarrow> jsstring \<Rightarrow> PropertySet" where
  "computeProperties B v =
     (let lower = toLowerCase B v in
      \<lparr> p_length = length v,
        p_is_palindrome = (lower = join_empty (rev (split_units lower))),
        p_unique_characters = length (remdups (code_points v)),
        p_word_count = (if trim v = [] then 0 else length (split_spaces (trim v))),
        p_sha256_hash = sha256_hex B v,
        p_character_frequency_map = frequency_map v \<rparr>)"

section \<open>Stored records\<close>

text \<open>
  A row of the table \<open>strings\<close>. The column \<open>properties\<close> holds
  \<open>JSON.stringify(props)\<close> and every reader applies \<open>JSON.parse\<close> to it: the pair is
  the identity on a PropertySet (numbers, a boolean, strings), so the row holds the
  PropertySet itself.
\<close>

record row =
  r_id :: jsstring
  r_value :: jsstring
  r_properties :: PropertySet
  r_created_at :: jsstring

section \<open>Filter Predicate Engine\<close>

text \<open>
  A filter value is a string when it comes from the query parameters of
  \<open>GET /strings\<close> and a number when the natural-language handler sets it;
  \<open>is_palindrome\<close> is a boolean in both callers (\<open>is_palindrome === "true"\<close>, or
  \<open>true\<close>) and \<open>contains_character\<close> a string. \<open>None\<close> is \<open>undefined\<close>.
\<close>

datatype jsval = VStr jsstring | VNum jsnum

fun Number_js :: "builtins \<Rightarrow> jsval \<Rightarrow> jsnum" where
  "Number_js B (VStr s) = StringToNumber B s"
| "Number_js B (VNum n) = n"

record FilterSet =
  f_is_palindrome :: "bool option"
  f_min_length :: "jsval option"
  f_max_length :: "jsval option"
  f_word_count :: "jsval option"
  f_contains_character :: "jsstring option"

definition empty_filters :: FilterSet where
  \<comment> \<open>the object \<open>{}\<close>\<close>
  "empty_filters = \<lparr> f_is_palindrome = None, f_min_length = None, f_max_length = None,
     f_word_count = None, f_contains_character = None \<rparr>"

definition num_of_nat :: "nat \<Rightarrow> jsnum" where
  "num_of_nat n = Fin (of_nat n)"

text \<open>
  The callback of \<open>rows.filter\<close> in \<open>applyFilters\<close> of \<open>index.js\<close>. Its guard
  \<open>typeof ch !== "string"\<close> never fires on a needle that is a string, which the type of
  the field says.
\<close>

definition matches_index :: "builtins \<Rightarrow> row \<Rightarrow> FilterSet \<Rightarrow> bool" where
  "matches_index B r f =
     (let p = r_properties r in
      if (case f_is_palindrome f of None \<Rightarrow> False | Some b \<Rightarrow> p_is_palindrome p \<noteq> b)
        then False
      else if (case f_min_length f of None \<Rightarrow> False
               | Some v \<Rightarrow> js_lt (num_of_nat (p_length p)) (Number_js B v))
        then False
      else if (case f_max_length f of None \<Rightarrow> False
               | Some v \<Rightarrow> js_lt (Number_js B v) (num_of_nat (p_length p)))
        then False
      else if (case f_word_count f of None \<Rightarrow> False
               | Some v \<Rightarrow> \<not> js_strict_eq (num_of_nat (p_word_count p)) (Number_js B v))
        then False
      else if (case f_contains_character f of None \<Rightarrow> False
               | Some ch \<Rightarrow> ch = [] \<or> \<not> sublist ch (r_value r))
        then False
      else True)"

definition applyFilters_index :: "builtins \<Rightarrow> row list \<Rightarrow> FilterSet \<Rightarrow> row list" where
  "applyFilters_index B rows f = filter (\<lambda>r. matches_index B r f) rows"

text \<open>
  The same callback in the second source file: the numeric tests are the same, the
  last test runs only for a truthy (non-empty) needle and lowercases both sides.
\<close>

definition matches_part0 :: "builtins \<Rightarrow> row \<Rightarrow> FilterSet \<Rightarrow> bool" where
  "matches_part0 B r f =
     (let p = r_properties r in
      if (case f_is_palindrome f of None \<Rightarrow> False | Some b \<Rightarrow> p_is_palindrome p \<noteq> b)
        then False
      else if (case f_min_length f of None \<Rightarrow> False
               | Some v \<Rightarrow> js_lt (num_of_nat (p_length p)) (Number_js B v))
        then False
      else if (case f_max_length f of None \<Rightarrow> False
               | Some v \<Rightarrow> js_lt (Number_js B v) (num_of_nat (p_length p)))
        then False
      else if (case f_word_count f of None \<Rightarrow> False
               | Some v \<Rightarrow> \<not> js_strict_eq (num_of_nat (p_word_count p)) (Number_js B v))
        then False
      else if (case f_contains_character f of None \<Rightarrow> False
               | Some ch \<Rightarrow> ch \<noteq> []
                   \<and> \<not> sublist (toLowerCase B ch) (toLowerCase B (r_value r)))
        then False
      else True)"

definition applyFilters_part0 :: "builtins \<Rightarrow> row list \<Rightarrow> FilterSet \<Rightarrow> row list" where
  "applyFilters_part0 B rows f = filter (\<lambda>r. matches_part0 B r f) rows"

text \<open>The two source files are told apart where they differ.\<close>

datatype variant = Index_js | Part_000

fun matches :: "variant \<Rightarrow> builtins \<Rightarrow> row \<Rightarrow> FilterSet \<Rightarrow> bool" where
  "matches Index_js = matches_index"
| "matches Part_000 = matches_part0"

fun applyFilters :: "variant \<Rightarrow> builtins \<Rightarrow> row list \<Rightarrow> FilterSet \<Rightarrow> row list" where
  "applyFilters Index_js = applyFilters_index"
| "applyFilters Part_000 = applyFilters_part0"

text \<open>
  The FilterSet that \<open>GET /strings\<close> builds from \<open>req.query\<close>, each parameter given
  once and as a plain string.
\<close>

definition filters_of_query :: "(string \<rightharpoonup> jsstring) \<Rightarrow> FilterSet" where
  "filters_of_query q =
     \<lparr> f_is_palindrome = map_option (\<lambda>s. s = js ''true'') (q ''is_palindrome''),
       f_min_length = map_option VStr (q ''min_length''),
       f_max_length = map_option VStr (q ''max_length''),
       f_word_count = map_option VStr (q ''word_count''),
       f_contains_character = q ''contains_character'' \<rparr>"

section \<open>Natural-Language Interpreter\<close>

text \<open>
  \<open>s.match(re)\<close> for a regular expression made of a literal followed by one group: the
  leftmost position where \<open>m\<close>, the match at the start of a string, succeeds.
\<close>

fun first_match :: "(jsstring \<Rightarrow> 'a option) \<Rightarrow> jsstring \<Rightarrow> 'a option" where
  "first_match m [] = m []"
| "first_match m (x # xs) =
     (case m (x # xs) of Some r \<Rightarrow> Some r | None \<Rightarrow> first_match m xs)"

definition digits_here :: "jsstring \<Rightarrow> jsstring \<Rightarrow> jsstring option" where
  \<comment> \<open>the literal, then \<open>(\d+)\<close>: the longest run of digits, at least one\<close>
  "digits_here lit s =
     (if prefix lit s
      then (let ds = takeWhile is_digit (drop (length lit) s)
            in if ds = [] then None else Some ds)
      else None)"

definition word_char_here :: "jsstring \<Rightarrow> jsstring \<Rightarrow> jsstring option" where
  \<comment> \<open>the literal, then \<open>(\w)\<close>\<close>
  "word_char_here lit s =
     (if prefix lit s
      then (case drop (length lit) s of [] \<Rightarrow> None
            | c # _ \<Rightarrow> if is_word_char c then Some [c] else None)
      else None)"

definition match_longer :: "jsstring \<Rightarrow> jsstring option" where
  \<comment> \<open>\<open>lower.match(/longer than (\d+)/)?.[1]\<close>\<close>
  "match_longer lower = first_match (digits_here (js ''longer than '')) lower"

definition match_shorter :: "jsstring \<Rightarrow> jsstring option" where
  \<comment> \<open>\<open>lower.match(/shorter than (\d+)/)?.[1]\<close>\<close>
  "match_shorter lower = first_match (digits_here (js ''shorter than '')) lower"

definition match_letter :: "jsstring \<Rightarrow> jsstring option" where
  \<comment> \<open>\<open>lower.match(/containing the letter (\w)/)?.[1]\<close>\<close>
  "match_letter lower = first_match (word_char_here (js ''containing the letter '')) lower"

definition digits_value :: "jsstring \<Rightarrow> nat" where
  "digits_value ds = foldl (\<lambda>a d. 10 * a + unat (d - 0x30)) 0 ds"

definition parseInt_digits :: "builtins \<Rightarrow> jsstring \<Rightarrow> jsnum" where
  \<comment> \<open>\<open>parseInt\<close> on the digits a group \<open>(\d+)\<close> captured\<close>
  "parseInt_digits B ds = to_number B (of_nat (digits_value ds))"

definition parseInt_opt :: "builtins \<Rightarrow> jsstring option \<Rightarrow> jsnum" where
  \<comment> \<open>\<open>parseInt(undefined)\<close> is \<open>NaN\<close>\<close>
  "parseInt_opt B m = (case m of None \<Rightarrow> NaN | Some ds \<Rightarrow> parseInt_digits B ds)"

fun indexOf_from :: "nat \<Rightarrow> jsstring \<Rightarrow> jsstring \<Rightarrow> int" where
  "indexOf_from i lit [] = (if lit = [] then int i else - 1)"
| "indexOf_from i lit (x # xs) =
     (if prefix lit (x # xs) then int i else indexOf_from (Suc i) lit xs)"

definition indexOf :: "jsstring \<Rightarrow> jsstring \<Rightarrow> int" where
  \<comment> \<open>\<open>s.indexOf(lit)\<close>\<close>
  "indexOf s lit = indexOf_from 0 lit s"

definition slice :: "jsstring \<Rightarrow> int \<Rightarrow> int \<Rightarrow> jsstring" where
  \<comment> \<open>\<open>s.slice(a, b)\<close> for \<open>0 \<le> a\<close> and \<open>0 \<le> b\<close>\<close>
  "slice s a b = take (nat b - nat a) (drop (nat a) s)"

text \<open>
  The parsing part of the handler in \<open>index.js\<close>. Its \<open>else if\<close> repeats the
  condition of the \<open>if\<close> before it.
\<close>

definition interpret_index :: "builtins \<Rightarrow> jsstring \<Rightarrow> FilterSet" where
  "interpret_index B query =
     (let lower = toLowerCase B query;
          f0 = empty_filters;
          f1 = (if sublist (js ''palindromic'') lower
                then f0\<lparr>f_is_palindrome := Some True\<rparr> else f0);
          f2 = (if sublist (js ''longer than'') lower
                then (let num = parseInt_opt B (match_longer lower)
                      in if \<not> isNaN num
                         then f1\<lparr>f_min_length := Some (VNum (js_add B num (Fin 1)))\<rparr>
                         else f1)
                else f1);
          f3 = (if sublist (js ''single word'') lower
                then f2\<lparr>f_word_count := Some (VNum (Fin 1))\<rparr> else f2);
          f4 = (if sublist (js ''containing the letter'') lower
                then (case match_letter lower of None \<Rightarrow> f3
                      | Some ch \<Rightarrow> if ch \<noteq> [] then f3\<lparr>f_contains_character := Some ch\<rparr> else f3)
                else if sublist (js ''containing the letter'') lower
                then (let ch = slice lower (indexOf lower (js ''containing the letter'') + 22)
                                 (indexOf lower (js ''containing the letter'') + 23)
                      in if ch \<noteq> [] then f3\<lparr>f_contains_character := Some ch\<rparr> else f3)
                else f3);
          f5 = (if sublist (js ''containing the first vowel'') lower
                then f4\<lparr>f_contains_character := Some (js ''a'')\<rparr> else f4)
      in f5)"

text \<open>The parsing part of the handler in the second source file.\<close>

definition interpret_part0 :: "builtins \<Rightarrow> jsstring \<Rightarrow> FilterSet" where
  "interpret_part0 B query =
     (let lower = toLowerCase B query;
          f0 = empty_filters;
          f1 = (if sublist (js ''palindrome'') lower \<or> sublist (js ''palindromic'') lower
                then f0\<lparr>f_is_palindrome := Some True\<rparr> else f0);
          f2 = (case match_longer lower of None \<Rightarrow> f1
                | Some ds \<Rightarrow>
                    f1\<lparr>f_min_length := Some (VNum (js_add B (parseInt_digits B ds) (Fin 1)))\<rparr>);
          f3 = (case match_shorter lower of None \<Rightarrow> f2
                | Some ds \<Rightarrow>
                    f2\<lparr>f_max_length := Some (VNum (js_sub B (parseInt_digits B ds) (Fin 1)))\<rparr>);
          f4 = (if sublist (js ''single word'') lower
                then f3\<lparr>f_word_count := Some (VNum (Fin 1))\<rparr> else f3);
          f5 = (case match_letter lower of None \<Rightarrow> f4
                | Some ch \<Rightarrow> f4\<lparr>f_contains_character := Some ch\<rparr>);
          f6 = (if sublist (js ''containing the first vowel'') lower
                then f5\<lparr>f_contains_character := Some (js ''a'')\<rparr> else f5)
      in f6)"

fun interpreter :: "variant \<Rightarrow> builtins \<Rightarrow> jsstring \<Rightarrow> FilterSet" where
  "interpreter Index_js = interpret_index"
| "interpreter Part_000 = interpret_part0"

text \<open>
  The patterns in the words of the specification: the lowercased query contains a
  phrase, or a phrase followed by a character of a class (a digit for
  \<open>longer than N\<close>, a word character for \<open>containing the letter X\<close>). Some suffix of the
  string starts with the phrase and goes on with such a character.
\<close>

definition contains_then :: "jsstring \<Rightarrow> (16 word \<Rightarrow> bool) \<Rightarrow> jsstring \<Rightarrow> bool" where
  "contains_then lit P s =
     list_ex (\<lambda>t. prefix lit t \<and> (case drop (length lit) t of [] \<Rightarrow> False | c # _ \<Rightarrow> P c))
       (suffixes s)"

definition recognized :: "builtins \<Rightarrow> jsstring \<Rightarrow> bool" where
  \<comment> \<open>the six recognized patterns of the specification\<close>
  "recognized B query =
     (let lower = toLowerCase B query in
      sublist (js ''palindrome'') lower \<or> sublist (js ''palindromic'') lower
      \<or> contains_then (js ''longer than '') is_digit lower
      \<or> contains_then (js ''shorter than '') is_digit lower
      \<or> sublist (js ''single word'') lower
      \<or> contains_then (js ''containing the letter '') is_word_char lower
      \<or> sublist (js ''containing the first vowel'') lower)"

definition keys_count :: "FilterSet \<Rightarrow> nat" where
  \<comment> \<open>\<open>Object.keys(filters).length\<close>\<close>
  "keys_count f =
     (if f_is_palindrome f = None then 0 else 1) + (if f_min_length f = None then 0 else 1)
     + (if f_max_length f = None then 0 else 1) + (if f_word_count f = None then 0 else 1)
     + (if f_contains_character f = None then 0 else 1)"

section \<open>The table\<close>

text \<open>
  The table \<open>strings\<close> as the list of its rows in insertion order. \<open>id\<close> is the primary
  key: an \<open>INSERT\<close> of an \<open>id\<close> that is already there throws.
\<close>

type_synonym store = "row list"

datatype db_error = SqliteConstraint

definition select_by_id :: "store \<Rightarrow> jsstring \<Rightarrow> row option" where
  \<comment> \<open>\<open>SELECT ... FROM strings WHERE id = ?\<close>, \<open>.get(id)\<close>\<close>
  "select_by_id st i = find (\<lambda>r. r_id r = i) st"

definition insert_row :: "store \<Rightarrow> row \<Rightarrow> db_error + store" where
  "insert_row st r =
     (if list_ex (\<lambda>x. r_id x = r_id r) st then Inl SqliteConstraint else Inr (st @ [r]))"

definition delete_by_id :: "store \<Rightarrow> jsstring \<Rightarrow> store" where
  "delete_by_id st i = filter (\<lambda>r. r_id r \<noteq> i) st"

fun string_le :: "jsstring \<Rightarrow> jsstring \<Rightarrow> bool" where
  "string_le [] _ = True"
| "string_le (x # xs) [] = False"
| "string_le (x # xs) (y # ys) = (x < y \<or> (x = y \<and> string_le xs ys))"

fun insert_desc :: "row \<Rightarrow> row list \<Rightarrow> row list" where
  "insert_desc r [] = [r]"
| "insert_desc r (x # xs) =
     (if string_le (r_created_at r) (r_created_at x) then x # insert_desc r xs
      else r # x # xs)"

definition select_all :: "store \<Rightarrow> row list" where
  \<comment> \<open>\<open>SELECT * FROM strings ORDER BY created_at DESC\<close>; rows of one timestamp stay
      in insertion order\<close>
  "select_all st = foldl (\<lambda>acc r. insert_desc r acc) [] st"

section \<open>Handlers\<close>

datatype body =
    ErrorBody string
  | RecordBody row
  | ListBody "row list" nat
  | InterpretedBody "row list" nat jsstring FilterSet
  | StatusOk
  | NoBody
  | NotFoundPage

record response =
  status :: nat
  body :: body

definition respond :: "nat \<Rightarrow> body \<Rightarrow> response" where
  "respond c b = \<lparr> status = c, body = b \<rparr>"

text \<open>What \<open>req.body.value\<close> can be when it is not \<open>undefined\<close>.\<close>

datatype json_value = JString jsstring | JOther

text \<open>
  \<open>app.post("/strings")\<close>; \<open>now\<close> is \<open>new Date().toISOString()\<close>. An exception of
  the \<open>INSERT\<close> reaches the global error handler.
\<close>

definition postStrings ::
  "builtins \<Rightarrow> store \<Rightarrow> json_value option \<Rightarrow> jsstring \<Rightarrow> response \<times> store" where
  "postStrings B st v now =
     (case v of
        None \<Rightarrow> (respond 400 (ErrorBody ''\"value\" field is required''), st)
      | Some JOther \<Rightarrow> (respond 422 (ErrorBody ''\"value\" must be a string''), st)
      | Some (JString s) \<Rightarrow>
          (let props = computeProperties B s;
               i = p_sha256_hash props
           in case select_by_id st i of
                Some _ \<Rightarrow> (respond 409 (ErrorBody ''String already exists in the system''), st)
              | None \<Rightarrow>
                  (let r = \<lparr> r_id = i, r_value = s, r_properties = props, r_created_at = now \<rparr>
                   in case insert_row st r of
                        Inl _ \<Rightarrow> (respond 500 (ErrorBody ''internal_server_error''), st)
                      | Inr st' \<Rightarrow> (respond 201 (RecordBody r), st'))))"

definition decodeURIComponent :: "builtins \<Rightarrow> jsstring \<Rightarrow> jsstring option" where
  \<comment> \<open>a string without \<open>%\<close> has no escape sequence and is returned as it is\<close>
  "decodeURIComponent B s = (if 0x25 \<in> set s then decode_escapes B s else Some s)"

text \<open>\<open>app.get("/strings/:string_value")\<close>; \<open>raw\<close> is \<open>req.params.string_value\<close>.\<close>

definition getStringValue :: "builtins \<Rightarrow> store \<Rightarrow> jsstring \<Rightarrow> response" where
  "getStringValue B st raw =
     (if raw = [] then respond 400 (ErrorBody ''missing string value param'')
      else case decodeURIComponent B raw of
             None \<Rightarrow> respond 500 (ErrorBody ''internal_server_error'')
           | Some v \<Rightarrow>
               (case select_by_id st (sha256_hex B v) of
                  None \<Rightarrow> respond 404 (ErrorBody ''String not found'')
                | Some r \<Rightarrow> respond 200 (RecordBody r)))"

text \<open>\<open>app.delete("/strings/:string_value")\<close>.\<close>

definition deleteStringValue :: "builtins \<Rightarrow> store \<Rightarrow> jsstring \<Rightarrow> response \<times> store" where
  "deleteStringValue B st raw =
     (case decodeURIComponent B raw of
        None \<Rightarrow> (respond 500 (ErrorBody ''internal_server_error''), st)
      | Some v \<Rightarrow>
          (let i = sha256_hex B v
           in case select_by_id st i of
                None \<Rightarrow> (respond 404 (ErrorBody ''String does not exist in the system''), st)
              | Some _ \<Rightarrow> (respond 204 NoBody, delete_by_id st i)))"

text \<open>\<open>app.get("/strings")\<close>.\<close>

definition getStrings ::
  "variant \<Rightarrow> builtins \<Rightarrow> store \<Rightarrow> (string \<rightharpoonup> jsstring) \<Rightarrow> response" where
  "getStrings V B st q =
     (let allRows = select_all st;
          filtered = applyFilters V B allRows (filters_of_query q)
      in respond 200 (ListBody filtered (length filtered)))"

text \<open>
  \<open>app.get("/strings/filter-by-natural-language")\<close> of \<open>index.js\<close>: the filters are
  applied before the test for an empty object.
\<close>

definition naturalLanguage_index ::
  "builtins \<Rightarrow> store \<Rightarrow> jsstring option \<Rightarrow> response" where
  "naturalLanguage_index B st query =
     (case query of
        None \<Rightarrow> respond 400 (ErrorBody ''Missing 'query' parameter'')
      | Some q \<Rightarrow>
          if q = [] then respond 400 (ErrorBody ''Missing 'query' parameter'')
          else
            (let filters = interpret_index B q;
                 allRows = select_all st;
                 filtered = applyFilters_index B allRows filters
             in if keys_count filters = 0
                then respond 400 (ErrorBody ''Unable to parse natural language query'')
                else respond 200 (InterpretedBody filtered (length filtered) q filters)))"

text \<open>The same handler in the second source file: the test comes first.\<close>

definition naturalLanguage_part0 ::
  "builtins \<Rightarrow> store \<Rightarrow> jsstring option \<Rightarrow> response" where
  "naturalLanguage_part0 B st query =
     (case query of
        None \<Rightarrow> respond 400 (ErrorBody ''Missing 'query' parameter'')
      | Some q \<Rightarrow>
          if q = [] then respond 400 (ErrorBody ''Missing 'query' parameter'')
          else
            (let filters = interpret_part0 B q
             in if keys_count filters = 0
                then respond 400 (ErrorBody ''Unable to parse natural language query'')
                else
                  (let allRows = select_all st;
                       filtered = applyFilters_part0 B allRows filters
                   in respond 200 (InterpretedBody filtered (length filtered) q filters))))"

fun naturalLanguage :: "variant \<Rightarrow> builtins \<Rightarrow> store \<Rightarrow> jsstring option \<Rightarrow> response" where
  "naturalLanguage Index_js = naturalLanguage_index"
| "naturalLanguage Part_000 = naturalLanguage_part0"

section \<open>Routing\<close>

text \<open>
  Express tries the routes in the order of their registration and runs the first one
  whose method and path match; none of the handlers calls \<open>next()\<close>. A path is the list
  of its segments, the query string apart. A literal segment matches without regard to
  the case of ASCII letters, \<open>:string_value\<close> matches any one segment, and Express
  decodes it before the handler sees it. A route without \<open>:string_value\<close> leaves
  \<open>req.params.string_value\<close> undefined.
\<close>

datatype http_method = GET | POST | DELETE | OTHER

datatype segment = Lit string | Param

datatype handler =
    PostStrings | GetStringValue | GetStrings | DeleteStringValue
  | GetNaturalLanguage | GetRoot

definition routes :: "(http_method \<times> segment list \<times> handler) list" where
  "routes =
     [ (POST, [Lit ''strings''], PostStrings),
       (GET, [Lit ''strings'', Param], GetStringValue),
       (GET, [Lit ''strings''], GetStrings),
       (DELETE, [Lit ''strings'', Param], DeleteStringValue),
       (GET, [Lit ''strings'', Lit ''filter-by-natural-language''], GetNaturalLanguage),
       (GET, [], GetRoot) ]"

definition ascii_lower_unit :: "16 word \<Rightarrow> 16 word" where
  "ascii_lower_unit u = (if 0x41 \<le> u \<and> u \<le> 0x5A then u + 0x20 else u)"

fun match_path :: "segment list \<Rightarrow> jsstring list \<Rightarrow> jsstring list option" where
  "match_path [] [] = Some []"
| "match_path (Lit l # ps) (x # xs) =
     (if map ascii_lower_unit x = map ascii_lower_unit (js l) then match_path ps xs else None)"
| "match_path (Param # ps) (x # xs) =
     (if x = [] then None else map_option (\<lambda>c. x # c) (match_path ps xs))"
| "match_path _ _ = None"

record request =
  req_method :: http_method
  req_path :: "jsstring list"
  req_query :: "string \<rightharpoonup> jsstring"
  req_value :: "json_value option"

fun find_route ::
  "(http_method \<times> segment list \<times> handler) list \<Rightarrow> http_method \<Rightarrow> jsstring list
     \<Rightarrow> (handler \<times> jsstring list) option" where
  "find_route [] m p = None"
| "find_route ((m', pat, h) # rs) m p =
     (if m' = m then (case match_path pat p of Some c \<Rightarrow> Some (h, c)
                      | None \<Rightarrow> find_route rs m p)
      else find_route rs m p)"

definition run_handler ::
  "variant \<Rightarrow> builtins \<Rightarrow> store \<Rightarrow> jsstring \<Rightarrow> request \<Rightarrow> handler \<Rightarrow> jsstring list
     \<Rightarrow> response \<times> store" where
  "run_handler V B st now req h params =
     (case h of
        PostStrings \<Rightarrow> postStrings B st (req_value req) now
      | GetStrings \<Rightarrow> (getStrings V B st (req_query req), st)
      | GetNaturalLanguage \<Rightarrow> (naturalLanguage V B st (req_query req ''query''), st)
      | GetRoot \<Rightarrow> (respond 200 StatusOk, st)
      | GetStringValue \<Rightarrow>
          (case params of
             [] \<Rightarrow> (getStringValue B st [], st)
           | x # _ \<Rightarrow>
               (case decodeURIComponent B x of
                  None \<Rightarrow> (respond 500 (ErrorBody ''internal_server_error''), st)
                | Some raw \<Rightarrow> (getStringValue B st raw, st)))
      | DeleteStringValue \<Rightarrow>
          (case params of
             [] \<Rightarrow> deleteStringValue B st (js ''undefined'')
           | x # _ \<Rightarrow>
               (case decodeURIComponent B x of
                  None \<Rightarrow> (respond 500 (ErrorBody ''internal_server_error''), st)
                | Some raw \<Rightarrow> deleteStringValue B st raw)))"

text \<open>One request against the application; \<open>now\<close> is the clock at that moment.\<close>

definition handle ::
  "variant \<Rightarrow> builtins \<Rightarrow> store \<Rightarrow> jsstring \<Rightarrow> request \<Rightarrow> response \<times> store" where
  "handle V B st now req =
     (case find_route routes (req_method req) (req_path req) of
        None \<Rightarrow> (respond 404 NotFoundPage, st)
      | Some (h, params) \<Rightarrow> run_handler V B st now req h params)"

section \<open>Stores the application can reach\<close>

definition well_formed :: "builtins \<Rightarrow> store \<Rightarrow> bool" where
  \<comment> \<open>every \<open>id\<close> is the hash of the value of its row\<close>
  "well_formed B st = list_all (\<lambda>r. r_id r = sha256_hex B (r_value r)) st"

inductive reachable :: "variant \<Rightarrow> builtins \<Rightarrow> store \<Rightarrow> bool" for V B where
  start: "reachable V B []"
| step: "reachable V B st \<Longrightarrow> reachable V B (snd (handle V B st now req))"

section \<open>A runtime for the examples\<close>

text \<open>
  The examples below run on ASCII letters, strings of digits and surrogate pairs, where
  this runtime does what the JavaScript one does: letters \<open>A\<close> to \<open>Z\<close> are lowered, a
  surrogate pair without a case mapping stays as it is, a string of digits is its value
  and a string with a letter is not a number. The hash is replaced by the identity,
  which keeps distinct strings apart as SHA-256 does.
\<close>

definition test_builtins :: builtins where
  "test_builtins =
     \<lparr> toLowerCase = map ascii_lower_unit,
       sha256_hex = (\<lambda>s. s),
       StringToNumber = (\<lambda>s. if s \<noteq> [] \<and> list_all is_digit s
                               then Fin (of_nat (digits_value s)) else NaN),
       ToDouble = Some,
       decode_escapes = (\<lambda>_. None) \<rparr>"

definition stored :: "jsstring \<Rightarrow> row" where
  \<comment> \<open>the row that \<open>POST /strings\<close> inserts for a value, at a fixed time\<close>
  "stored v =
     \<lparr> r_id = sha256_hex test_builtins v, r_value = v,
       r_properties = computeProperties test_builtins v,
       r_created_at = js ''2025-10-20T10:00:00.000Z'' \<rparr>"

section \<open>Properties of the Property Analyzer\<close>

lemma join_rev_split_units: "join_empty (rev (split_units s)) = rev s"
  by (induction s) (simp_all add: join_empty_def split_units_def)

lemma surrogates_differ: "is_high_surrogate h \<Longrightarrow> is_low_surrogate l \<Longrightarrow> h \<noteq> l"
proof
  assume h: "is_high_surrogate h" and l: "is_low_surrogate l" and e: "h = l"
  from h have "h \<le> 0xDBFF" by (simp add: is_high_surrogate_def)
  moreover from l e have "0xDC00 \<le> h" by (simp add: is_low_surrogate_def)
  ultimately have "(0xDC00 :: 16 word) \<le> 0xDBFF" by (rule order_trans [rotated])
  then show False by simp
qed

text \<open>
  Claim C6, as amended. For every string, \<open>is_palindrome\<close> of the computed properties is
  true exactly when the lowercase form of the string, read code unit by code unit,
  equals its own reverse. A single-character string is a palindrome when its lowercase
  form is a single code unit; a single character that is a surrogate pair, which
  lowercasing leaves as it is, is not one.
\<close>

theorem computeProperties_is_palindrome:
  "(p_is_palindrome (computeProperties B s) \<longleftrightarrow> toLowerCase B s = rev (toLowerCase B s))
   \<and> (length (toLowerCase B s) \<le> 1 \<longrightarrow> p_is_palindrome (computeProperties B s))
   \<and> (is_high_surrogate h \<and> is_low_surrogate l \<and> toLowerCase B [h, l] = [h, l]
        \<longrightarrow> length (code_points [h, l]) = 1 \<and> \<not> p_is_palindrome (computeProperties B [h, l]))"
proof -
  have iff: "p_is_palindrome (computeProperties B t) \<longleftrightarrow> toLowerCase B t = rev (toLowerCase B t)"
    for t
    by (simp add: computeProperties_def Let_def join_rev_split_units)
  have short: "length xs \<le> 1 \<Longrightarrow> xs = rev xs" for xs :: jsstring
    by (cases xs) auto
  have pair: "length (code_points [h, l]) = 1 \<and> \<not> p_is_palindrome (computeProperties B [h, l])"
    if "is_high_surrogate h" and "is_low_surrogate l" and "toLowerCase B [h, l] = [h, l]"
  proof -
    have "h \<noteq> l" using that(1,2) by (rule surrogates_differ)
    then have "\<not> p_is_palindrome (computeProperties B [h, l])"
      using that(3) by (simp add: iff)
    moreover have "length (code_points [h, l]) = 1" using that(1,2) by simp
    ultimately show ?thesis by simp
  qed
  from iff [of s] short [of "toLowerCase B s"] pair show ?thesis by blast
qed

theorem computeProperties_is_palindrome_witness:
  "p_is_palindrome (computeProperties test_builtins (js ''Racecar''))
   \<and> \<not> p_is_palindrome (computeProperties test_builtins (js ''hello''))
   \<and> p_is_palindrome (computeProperties test_builtins (js ''Q''))
   \<and> \<not> p_is_palindrome (computeProperties test_builtins [0xD83C, 0xDF0D])"
proof -
  have hi: "is_high_surrogate 0xD83C" by (simp add: is_high_surrogate_def)
  have lo: "is_low_surrogate 0xDF0D" by (simp add: is_low_surrogate_def)
  have same: "toLowerCase test_builtins [0xD83C, 0xDF0D] = [0xD83C, 0xDF0D]"
    by (simp add: test_builtins_def ascii_lower_unit_def)
  show ?thesis
    using computeProperties_is_palindrome [of test_builtins "js ''Racecar''" "0xD83C" "0xDF0D"]
      computeProperties_is_palindrome [of test_builtins "js ''hello''" "0xD83C" "0xDF0D"]
      computeProperties_is_palindrome [of test_builtins "js ''Q''" "0xD83C" "0xDF0D"]
      hi lo same
    by (simp add: test_builtins_def js_def ascii_lower_unit_def)
qed

text \<open>
  The string U+1F600 is one character (one code point, \<open>unique_characters = 1\<close>) of two
  code units, which no case mapping changes: it is not a palindrome.
\<close>

theorem computeProperties_is_palindrome_counterexample:
  "length (code_points [0xD83D, 0xDE00]) = 1
   \<and> p_unique_characters (computeProperties test_builtins [0xD83D, 0xDE00]) = 1
   \<and> \<not> p_is_palindrome (computeProperties test_builtins [0xD83D, 0xDE00])"
  by (simp add: computeProperties_def Let_def is_high_surrogate_def is_low_surrogate_def
      test_builtins_def ascii_lower_unit_def split_units_def join_empty_def)

lemma dom_bump: "dom (bump m ch) = insert ch (dom m)"
  by (simp add: bump_def)

lemma dom_foldl_bump: "dom (foldl bump m xs) = dom m \<union> set xs"
  by (induction xs arbitrary: m) (simp_all add: dom_bump)

lemma total_bump:
  assumes "finite (dom m)"
  shows "(\<Sum>k\<in>dom (bump m ch). the (bump m ch k)) = (\<Sum>k\<in>dom m. the (m k)) + 1"
proof (cases "ch \<in> dom m")
  case True
  then obtain c where c: "m ch = Some c" by auto
  have d: "dom (bump m ch) = dom m" using True by (auto simp: dom_bump)
  have "(\<Sum>k\<in>dom m. the (bump m ch k))
      = the (bump m ch ch) + (\<Sum>k\<in>dom m - {ch}. the (bump m ch k))"
    using assms True by (rule sum.remove)
  also have "(\<Sum>k\<in>dom m - {ch}. the (bump m ch k)) = (\<Sum>k\<in>dom m - {ch}. the (m k))"
    by (rule sum.cong) (simp_all add: bump_def)
  also have "the (bump m ch ch) = the (m ch) + 1" using c by (simp add: bump_def)
  finally have "(\<Sum>k\<in>dom m. the (bump m ch k))
      = (the (m ch) + (\<Sum>k\<in>dom m - {ch}. the (m k))) + 1"
    by simp
  also have "the (m ch) + (\<Sum>k\<in>dom m - {ch}. the (m k)) = (\<Sum>k\<in>dom m. the (m k))"
    using assms True by (rule sum.remove [symmetric])
  finally show ?thesis using d by simp
next
  case False
  then have n: "m ch = None" by auto
  have "(\<Sum>k\<in>insert ch (dom m). the (bump m ch k))
      = the (bump m ch ch) + (\<Sum>k\<in>dom m. the (bump m ch k))"
    using assms False by (rule sum.insert)
  also have "(\<Sum>k\<in>dom m. the (bump m ch k)) = (\<Sum>k\<in>dom m. the (m k))"
    using False by (intro sum.cong) (auto simp: bump_def)
  also have "the (bump m ch ch) = 1" using n by (simp add: bump_def)
  finally show ?thesis by (simp add: dom_bump)
qed

lemma total_foldl_bump:
  "finite (dom m) \<Longrightarrow>
   (\<Sum>k\<in>dom (foldl bump m xs). the (foldl bump m xs k)) = (\<Sum>k\<in>dom m. the (m k)) + length xs"
proof (induction xs arbitrary: m)
  case Nil
  then show ?case by simp
next
  case (Cons x xs)
  have "finite (dom (bump m x))" using Cons.prems by (simp add: dom_bump)
  from Cons.IH [OF this] show ?case using total_bump [OF Cons.prems, of x] by simp
qed

lemma length_code_points_le: "length (code_points s) \<le> length s"
  by (induction s rule: code_points.induct) auto

lemma concat_code_points: "concat (code_points s) = s"
  by (induction s rule: code_points.induct) simp_all

text \<open>
  Claim C10. For every string, \<open>unique_characters\<close> is the number of keys of
  \<open>character_frequency_map\<close>, the counts of the map add up to the number of code points
  of the string, and that number is at most \<open>length\<close>, which counts UTF-16 code units.
\<close>

theorem computeProperties_frequency_invariant:
  "p_unique_characters (computeProperties B s)
     = card (dom (p_character_frequency_map (computeProperties B s)))
   \<and> (\<Sum>ch\<in>dom (p_character_frequency_map (computeProperties B s)).
         the (p_character_frequency_map (computeProperties B s) ch))
     = length (code_points s)
   \<and> length (code_points s) \<le> p_length (computeProperties B s)"
proof -
  have m: "p_character_frequency_map (computeProperties B s)
      = foldl bump Map.empty (code_points s)"
    by (simp add: computeProperties_def Let_def frequency_map_def)
  have d: "dom (foldl bump Map.empty (code_points s)) = set (code_points s)"
    by (simp add: dom_foldl_bump)
  have u: "p_unique_characters (computeProperties B s) = card (set (code_points s))"
    by (simp add: computeProperties_def Let_def length_remdups_card_conv)
  have t: "(\<Sum>k\<in>dom (foldl bump Map.empty (code_points s)).
        the (foldl bump Map.empty (code_points s) k)) = length (code_points s)"
    using total_foldl_bump [of Map.empty "code_points s"] by simp
  have l: "p_length (computeProperties B s) = length s"
    by (simp add: computeProperties_def Let_def)
  show ?thesis
    unfolding m u l using d t length_code_points_le [of s] by simp
qed

text \<open>
  The string of the witness is U+1F600 (a surrogate pair) followed by \<open>aa\<close>: four code
  units, three code points, two distinct characters.
\<close>

theorem computeProperties_frequency_invariant_witness:
  "p_unique_characters (computeProperties test_builtins [0xD83D, 0xDE00, 0x61, 0x61]) = 2
   \<and> card (dom (p_character_frequency_map
        (computeProperties test_builtins [0xD83D, 0xDE00, 0x61, 0x61]))) = 2
   \<and> (\<Sum>ch\<in>dom (p_character_frequency_map
          (computeProperties test_builtins [0xD83D, 0xDE00, 0x61, 0x61])).
         the (p_character_frequency_map
          (computeProperties test_builtins [0xD83D, 0xDE00, 0x61, 0x61]) ch)) = 3
   \<and> p_length (computeProperties test_builtins [0xD83D, 0xDE00, 0x61, 0x61]) = 4"
proof -
  have cp: "code_points [0xD83D, 0xDE00, 0x61, 0x61] = [[0xD83D, 0xDE00], [0x61], [0x61]]"
    by (simp add: is_high_surrogate_def is_low_surrogate_def)
  have u: "p_unique_characters (computeProperties test_builtins [0xD83D, 0xDE00, 0x61, 0x61]) = 2"
    by (simp add: computeProperties_def Let_def is_high_surrogate_def is_low_surrogate_def)
  have l: "p_length (computeProperties test_builtins [0xD83D, 0xDE00, 0x61, 0x61]) = 4"
    by (simp add: computeProperties_def Let_def)
  show ?thesis
    using computeProperties_frequency_invariant [of test_builtins "[0xD83D, 0xDE00, 0x61, 0x61]"]
    unfolding u l cp by simp
qed

section \<open>Properties of the Filter Predicate Engine\<close>

lemma matches_index_empty: "matches_index B r empty_filters"
  by (simp add: matches_index_def empty_filters_def)

lemma matches_part0_empty: "matches_part0 B r empty_filters"
  by (simp add: matches_part0_def empty_filters_def)

text \<open>
  Claim C9. In both source files the empty FilterSet matches every record, and
  filtering a list of records with it returns the list unchanged.
\<close>

theorem empty_filters_identity:
  "matches V B r empty_filters \<and> applyFilters V B rows empty_filters = rows"
  by (cases V)
    (simp_all add: applyFilters_index_def applyFilters_part0_def
      matches_index_empty matches_part0_empty)

theorem empty_filters_identity_witness:
  "matches Index_js test_builtins (stored (js ''abc'')) empty_filters
   \<and> applyFilters Part_000 test_builtins [stored (js ''abc''), stored (js ''Racecar'')]
        empty_filters
       = [stored (js ''abc''), stored (js ''Racecar'')]"
  using empty_filters_identity [of Index_js test_builtins "stored (js ''abc'')" "[]"]
    empty_filters_identity [of Part_000 test_builtins "stored (js ''abc'')"
      "[stored (js ''abc''), stored (js ''Racecar'')]"]
  by simp

lemma lower_eval:
  "toLowerCase test_builtins s = map ascii_lower_unit s"
  by (simp add: test_builtins_def)

lemma lower_a: "toLowerCase test_builtins (js ''a'') = js ''a''"
  by (simp add: test_builtins_def js_def ascii_lower_unit_def)

lemma lower_A: "toLowerCase test_builtins (js ''A'') = js ''a''"
  by (simp add: test_builtins_def js_def ascii_lower_unit_def)

text \<open>
  Claim C2, as amended. For a FilterSet whose \<open>contains_character\<close> is present, the
  second source file tests that conjunct without regard to case: the record matches
  exactly when it matches the other fields and its lowercased value contains the
  lowercased needle. \<open>index.js\<close> compares the raw strings: the record matches exactly
  when it matches the other fields, the needle is not empty and the value contains the
  needle as it is written.
\<close>

theorem contains_character_conjunct:
  assumes "f_contains_character f = Some ch"
  shows "(toLowerCase B [] = [] \<longrightarrow>
            (matches_part0 B r f \<longleftrightarrow>
               matches_part0 B r (f\<lparr>f_contains_character := None\<rparr>)
               \<and> sublist (toLowerCase B ch) (toLowerCase B (r_value r))))
         \<and> (matches_index B r f \<longleftrightarrow>
               matches_index B r (f\<lparr>f_contains_character := None\<rparr>)
               \<and> ch \<noteq> [] \<and> sublist ch (r_value r))"
  using assms by (auto simp: matches_part0_def matches_index_def Let_def)

theorem contains_character_conjunct_witness:
  "matches_part0 test_builtins (stored (js ''A''))
     (empty_filters\<lparr>f_contains_character := Some (js ''a'')\<rparr>)
   \<and> \<not> matches_index test_builtins (stored (js ''A''))
     (empty_filters\<lparr>f_contains_character := Some (js ''a'')\<rparr>)
   \<and> matches_index test_builtins (stored (js ''A''))
     (empty_filters\<lparr>f_contains_character := Some (js ''A'')\<rparr>)"
proof -
  have e: "toLowerCase test_builtins [] = []" by (simp add: test_builtins_def)
  have n: "empty_filters\<lparr>f_contains_character := Some c\<rparr>\<lparr>f_contains_character := None\<rparr>
      = empty_filters" for c
    by (simp add: empty_filters_def)
  have v: "r_value (stored (js ''A'')) = js ''A''" by (simp add: stored_def)
  have s1: "sublist (js ''a'') (js ''a'')" by simp
  have s2: "\<not> sublist (js ''a'') (js ''A'')" by (simp add: js_def sublist_Cons_right)
  have s3: "js ''a'' \<noteq> []" "js ''A'' \<noteq> []" by (simp_all add: js_def)
  show ?thesis
    using contains_character_conjunct [of "empty_filters\<lparr>f_contains_character := Some (js ''a'')\<rparr>"
        "js ''a''" test_builtins "stored (js ''A'')"]
      contains_character_conjunct [of "empty_filters\<lparr>f_contains_character := Some (js ''A'')\<rparr>"
        "js ''A''" test_builtins "stored (js ''A'')"]
    by (simp add: e n v s1 s2 s3 lower_a lower_A matches_index_empty matches_part0_empty)
qed

text \<open>The stored value \<open>A\<close> and the needle \<open>a\<close>: equal once lowercased, no match in \<open>index.js\<close>.\<close>

theorem contains_character_case_counterexample:
  "sublist (toLowerCase test_builtins (js ''a''))
     (toLowerCase test_builtins (r_value (stored (js ''A''))))
   \<and> \<not> matches_index test_builtins (stored (js ''A''))
         (empty_filters\<lparr>f_contains_character := Some (js ''a'')\<rparr>)"
proof -
  have v: "r_value (stored (js ''A'')) = js ''A''" by (simp add: stored_def)
  have s2: "\<not> sublist (js ''a'') (js ''A'')" by (simp add: js_def sublist_Cons_right)
  show ?thesis
    by (simp add: v lower_a lower_A s2 matches_index_def empty_filters_def)
qed

lemma filters_of_query_simps:
  "f_is_palindrome (filters_of_query q) = map_option (\<lambda>s. s = js ''true'') (q ''is_palindrome'')"
  "f_min_length (filters_of_query q) = map_option VStr (q ''min_length'')"
  "f_max_length (filters_of_query q) = map_option VStr (q ''max_length'')"
  "f_word_count (filters_of_query q) = map_option VStr (q ''word_count'')"
  "f_contains_character (filters_of_query q) = q ''contains_character''"
  by (simp_all add: filters_of_query_def)

lemma js_lt_NaN: "\<not> js_lt a NaN" "\<not> js_lt NaN a"
  by (cases a; simp)+

lemma js_strict_eq_NaN: "\<not> js_strict_eq a NaN"
  by (simp add: js_strict_eq_def)

lemma NaN_abc: "StringToNumber test_builtins (js ''abc'') = NaN"
  by (simp add: test_builtins_def js_def is_digit_def)

text \<open>
  Claim C5, as amended. A query parameter that \<open>Number\<close> turns into \<open>NaN\<close> raises no
  error. As \<open>min_length\<close> or \<open>max_length\<close> it excludes no record: both comparisons
  with \<open>NaN\<close> are false, and the result is the one of the query without that
  parameter. As \<open>word_count\<close> it excludes every record.
\<close>

theorem non_numeric_filter:
  assumes "StringToNumber B s = NaN"
  shows "(q ''min_length'' = Some s \<longrightarrow>
            (matches V B r (filters_of_query q)
               \<longleftrightarrow> matches V B r (filters_of_query (q(''min_length'' := None)))))
         \<and> (q ''max_length'' = Some s \<longrightarrow>
            (matches V B r (filters_of_query q)
               \<longleftrightarrow> matches V B r (filters_of_query (q(''max_length'' := None)))))
         \<and> (q ''word_count'' = Some s \<longrightarrow> \<not> matches V B r (filters_of_query q))"
  using assms
  by (cases V)
    (simp_all add: matches_index_def matches_part0_def Let_def filters_of_query_simps
      js_lt_NaN js_strict_eq_NaN)

theorem non_numeric_filter_witness:
  "StringToNumber test_builtins (js ''abc'') = NaN
   \<and> matches Index_js test_builtins (stored (js ''hello''))
        (filters_of_query [''min_length'' \<mapsto> js ''abc''])
   \<and> matches Part_000 test_builtins (stored (js ''hello''))
        (filters_of_query [''max_length'' \<mapsto> js ''abc''])
   \<and> \<not> matches Part_000 test_builtins (stored (js ''hello''))
        (filters_of_query [''word_count'' \<mapsto> js ''abc''])"
proof -
  have e: "filters_of_query Map.empty = empty_filters"
    by (simp add: filters_of_query_def empty_filters_def)
  show ?thesis
    using non_numeric_filter [OF NaN_abc, of "[''min_length'' \<mapsto> js ''abc'']" Index_js
        "stored (js ''hello'')"]
      non_numeric_filter [OF NaN_abc, of "[''max_length'' \<mapsto> js ''abc'']" Part_000
        "stored (js ''hello'')"]
      non_numeric_filter [OF NaN_abc, of "[''word_count'' \<mapsto> js ''abc'']" Part_000
        "stored (js ''hello'')"]
    by (simp add: NaN_abc e matches_index_empty matches_part0_empty)
qed

text \<open>\<open>GET /strings?min_length=abc\<close> keeps the record \<open>hello\<close>.\<close>

theorem non_numeric_filter_counterexample:
  "StringToNumber test_builtins (js ''abc'') = NaN
   \<and> applyFilters Index_js test_builtins [stored (js ''hello'')]
        (filters_of_query [''min_length'' \<mapsto> js ''abc'']) = [stored (js ''hello'')]"
  by (simp add: NaN_abc applyFilters_index_def matches_index_def filters_of_query_simps js_lt_NaN)

section \<open>Properties of the Natural-Language Interpreter\<close>

lemma first_match_iff:
  "first_match m s \<noteq> None \<longleftrightarrow> list_ex (\<lambda>t. m t \<noteq> None) (suffixes s)"
  by (induction s) (auto split: option.splits)

lemma takeWhile_nonempty: "takeWhile P l \<noteq> [] \<longleftrightarrow> (case l of [] \<Rightarrow> False | c # _ \<Rightarrow> P c)"
  by (cases l) auto

lemma digits_here_iff:
  "digits_here lit t \<noteq> None
     \<longleftrightarrow> prefix lit t \<and> (case drop (length lit) t of [] \<Rightarrow> False | c # _ \<Rightarrow> is_digit c)"
  by (cases "drop (length lit) t") (simp_all add: digits_here_def Let_def)

lemma word_char_here_iff:
  "word_char_here lit t \<noteq> None
     \<longleftrightarrow> prefix lit t \<and> (case drop (length lit) t of [] \<Rightarrow> False | c # _ \<Rightarrow> is_word_char c)"
  by (simp add: word_char_here_def split: list.splits)

lemma match_digits_contains:
  "first_match (digits_here lit) s \<noteq> None \<longleftrightarrow> contains_then lit is_digit s"
  by (simp only: first_match_iff digits_here_iff contains_then_def)

lemma match_word_char_contains:
  "first_match (word_char_here lit) s \<noteq> None \<longleftrightarrow> contains_then lit is_word_char s"
  by (simp only: first_match_iff word_char_here_iff contains_then_def)

lemma contains_then_sublist: "contains_then lit P s \<Longrightarrow> sublist lit s"
  by (auto simp: contains_then_def list_ex_iff sublist_altdef')

lemma sublist_trans: "sublist a b \<Longrightarrow> sublist b c \<Longrightarrow> sublist a c"
proof -
  assume "sublist a b" and "sublist b c"
  then obtain p1 s1 p2 s2 where "b = p1 @ a @ s1" and "c = p2 @ b @ s2"
    by (auto simp: sublist_def)
  then have "c = (p2 @ p1) @ a @ (s1 @ s2)" by simp
  then show "sublist a c" unfolding sublist_def by blast
qed

lemma longer_lit: "sublist (js ''longer than'') (js ''longer than '')"
  by (simp add: js_def)

lemma letter_lit: "sublist (js ''containing the letter'') (js ''containing the letter '')"
  by (simp add: js_def)

lemma match_longer_sublist:
  "match_longer lower = Some ds \<Longrightarrow> sublist (js ''longer than'') lower"
proof -
  assume "match_longer lower = Some ds"
  then have "contains_then (js ''longer than '') is_digit lower"
    using match_digits_contains [of "js ''longer than ''" lower] by (simp add: match_longer_def)
  then have "sublist (js ''longer than '') lower" by (rule contains_then_sublist)
  with longer_lit show ?thesis by (rule sublist_trans)
qed

lemma first_match_word_char_nonempty:
  "first_match (word_char_here lit) s = Some ch \<Longrightarrow> ch \<noteq> []"
  by (induction s) (auto simp: word_char_here_def split: option.splits list.splits if_splits)

lemma match_letter_sublist:
  "match_letter lower = Some ch \<Longrightarrow> sublist (js ''containing the letter'') lower \<and> ch \<noteq> []"
proof -
  assume a: "match_letter lower = Some ch"
  then have "contains_then (js ''containing the letter '') is_word_char lower"
    using match_word_char_contains [of "js ''containing the letter ''" lower]
    by (simp add: match_letter_def)
  then have "sublist (js ''containing the letter '') lower" by (rule contains_then_sublist)
  with letter_lit have "sublist (js ''containing the letter'') lower" by (rule sublist_trans)
  moreover have "ch \<noteq> []" using a first_match_word_char_nonempty by (simp add: match_letter_def)
  ultimately show ?thesis by simp
qed

lemma to_number_not_NaN: "to_number B q \<noteq> NaN"
  by (simp add: to_number_def split: option.splits)

lemma parseInt_digits_not_NaN: "parseInt_digits B ds \<noteq> NaN"
  by (simp add: parseInt_digits_def to_number_not_NaN)

text \<open>What each source file leaves in each field of the FilterSet.\<close>

lemma interpret_part0_fields:
  "f_is_palindrome (interpret_part0 B q)
     = (if sublist (js ''palindrome'') (toLowerCase B q) \<or> sublist (js ''palindromic'') (toLowerCase B q)
        then Some True else None)"
  "f_min_length (interpret_part0 B q)
     = map_option (\<lambda>ds. VNum (js_add B (parseInt_digits B ds) (Fin 1))) (match_longer (toLowerCase B q))"
  "f_max_length (interpret_part0 B q)
     = map_option (\<lambda>ds. VNum (js_sub B (parseInt_digits B ds) (Fin 1))) (match_shorter (toLowerCase B q))"
  "f_word_count (interpret_part0 B q)
     = (if sublist (js ''single word'') (toLowerCase B q) then Some (VNum (Fin 1)) else None)"
  "f_contains_character (interpret_part0 B q)
     = (if sublist (js ''containing the first vowel'') (toLowerCase B q) then Some (js ''a'')
        else match_letter (toLowerCase B q))"
  by (simp_all add: interpret_part0_def Let_def empty_filters_def split: option.splits)

lemma interpret_index_fields:
  "f_is_palindrome (interpret_index B q)
     = (if sublist (js ''palindromic'') (toLowerCase B q) then Some True else None)"
  "f_min_length (interpret_index B q)
     = map_option (\<lambda>ds. VNum (js_add B (parseInt_digits B ds) (Fin 1))) (match_longer (toLowerCase B q))"
  "f_max_length (interpret_index B q) = None"
  "f_word_count (interpret_index B q)
     = (if sublist (js ''single word'') (toLowerCase B q) then Some (VNum (Fin 1)) else None)"
  "f_contains_character (interpret_index B q)
     = (if sublist (js ''containing the first vowel'') (toLowerCase B q) then Some (js ''a'')
        else match_letter (toLowerCase B q))"
proof -
  show "f_is_palindrome (interpret_index B q)
     = (if sublist (js ''palindromic'') (toLowerCase B q) then Some True else None)"
    by (simp add: interpret_index_def Let_def empty_filters_def split: option.splits)
  show "f_min_length (interpret_index B q)
     = map_option (\<lambda>ds. VNum (js_add B (parseInt_digits B ds) (Fin 1))) (match_longer (toLowerCase B q))"
    using match_longer_sublist [of "toLowerCase B q"]
    by (cases "match_longer (toLowerCase B q)")
      (simp_all add: interpret_index_def Let_def empty_filters_def parseInt_opt_def
        parseInt_digits_not_NaN isNaN_def split: option.splits)
  show "f_max_length (interpret_index B q) = None"
    by (simp add: interpret_index_def Let_def empty_filters_def split: option.splits)
  show "f_word_count (interpret_index B q)
     = (if sublist (js ''single word'') (toLowerCase B q) then Some (VNum (Fin 1)) else None)"
    by (simp add: interpret_index_def Let_def empty_filters_def split: option.splits)
  show "f_contains_character (interpret_index B q)
     = (if sublist (js ''containing the first vowel'') (toLowerCase B q) then Some (js ''a'')
        else match_letter (toLowerCase B q))"
    using match_letter_sublist [of "toLowerCase B q"]
    by (cases "match_letter (toLowerCase B q)")
      (simp_all add: interpret_index_def Let_def empty_filters_def split: option.splits)
qed

text \<open>
  Claim C3, as amended. In the second source file \<open>is_palindrome\<close> is set to true
  exactly when the lowercased query contains \<open>palindrome\<close> or \<open>palindromic\<close>; in
  \<open>index.js\<close> exactly when it contains \<open>palindromic\<close>.
\<close>

theorem palindrome_pattern:
  "f_is_palindrome (interpret_part0 B q)
     = (if sublist (js ''palindrome'') (toLowerCase B q)
           \<or> sublist (js ''palindromic'') (toLowerCase B q)
        then Some True else None)
   \<and> f_is_palindrome (interpret_index B q)
     = (if sublist (js ''palindromic'') (toLowerCase B q) then Some True else None)"
  by (simp only: interpret_part0_fields interpret_index_fields)

theorem palindrome_pattern_witness:
  "f_is_palindrome (interpret_part0 test_builtins (js ''All Palindrome strings'')) = Some True
   \<and> f_is_palindrome (interpret_index test_builtins (js ''All Palindrome strings'')) = None"
  using palindrome_pattern [of test_builtins "js ''All Palindrome strings''"]
  by (simp add: lower_eval js_def ascii_lower_unit_def sublist_Cons_right)

theorem palindrome_pattern_counterexample:
  "sublist (js ''palindrome'') (toLowerCase test_builtins (js ''palindrome strings''))
   \<and> f_is_palindrome (interpret_index test_builtins (js ''palindrome strings'')) \<noteq> Some True"
  by (simp add: interpret_index_fields lower_eval js_def ascii_lower_unit_def sublist_Cons_right)

text \<open>
  The leftmost match of a literal followed by \<open>(\d+)\<close>: no match starts inside \<open>pre\<close>,
  and after \<open>pre\<close> come the literal, the digits \<open>ds\<close> and then no digit.
\<close>

lemma prefix_append_short:
  assumes "prefix xs (ys @ zs)" and "length xs \<le> length ys"
  shows "prefix xs ys"
  using assms by (auto simp: prefix_append)

lemma digits_here_shorten:
  assumes "digits_here lit (a @ c) \<noteq> None" and "length lit < length a"
  shows "digits_here lit a \<noteq> None"
proof -
  from assms(1) have p: "prefix lit (a @ c)"
    and d: "(case drop (length lit) (a @ c) of [] \<Rightarrow> False | x # _ \<Rightarrow> is_digit x)"
    unfolding digits_here_iff by blast+
  have "prefix lit a" using p assms(2) by (intro prefix_append_short [of lit a c]) simp_all
  moreover obtain x xs where "drop (length lit) a = x # xs"
    using assms(2) by (cases "drop (length lit) a") auto
  then have "(case drop (length lit) a of [] \<Rightarrow> False | x # _ \<Rightarrow> is_digit x)"
    using d assms(2) by simp
  ultimately show ?thesis unfolding digits_here_iff by blast
qed

lemma contains_then_Cons:
  "contains_then lit P (x # s)
     \<longleftrightarrow> contains_then lit P s
         \<or> (prefix lit (x # s) \<and> (case drop (length lit) (x # s) of [] \<Rightarrow> False | c # _ \<Rightarrow> P c))"
  by (simp add: contains_then_def)

lemma first_match_skip:
  assumes "\<not> contains_then lit is_digit (pre @ lit)"
  shows "first_match (digits_here lit) (pre @ lit @ after)
           = first_match (digits_here lit) (lit @ after)"
  using assms
proof (induction pre)
  case Nil
  then show ?case by simp
next
  case (Cons x xs)
  have "digits_here lit (((x # xs) @ lit) @ after) = None"
  proof (rule ccontr)
    assume "digits_here lit (((x # xs) @ lit) @ after) \<noteq> None"
    moreover have "length lit < length ((x # xs) @ lit)" by simp
    ultimately have "digits_here lit ((x # xs) @ lit) \<noteq> None" by (rule digits_here_shorten)
    then have "digits_here lit (x # (xs @ lit)) \<noteq> None" by simp
    then have "contains_then lit is_digit (x # (xs @ lit))"
      unfolding digits_here_iff contains_then_Cons by blast
    with Cons.prems show False by simp
  qed
  then have none: "digits_here lit (x # xs @ lit @ after) = None" by simp
  have "\<not> contains_then lit is_digit (xs @ lit)"
    using Cons.prems by (simp add: contains_then_Cons)
  from Cons.IH [OF this] show ?case using none by simp
qed

lemma takeWhile_run:
  assumes "list_all P ds" and "rest = [] \<or> \<not> P (hd rest)"
  shows "takeWhile P (ds @ rest) = ds"
proof -
  have "takeWhile P rest = []" using assms(2) by (cases rest) auto
  moreover have "takeWhile P (ds @ rest) = ds @ takeWhile P rest"
    using assms(1) by (intro takeWhile_append2) (simp add: list_all_iff)
  ultimately show ?thesis by simp
qed

lemma first_match_at_start:
  assumes "ds \<noteq> []" and "list_all is_digit ds"
    and "rest = [] \<or> \<not> is_digit (hd rest)"
  shows "first_match (digits_here lit) (lit @ ds @ rest) = Some ds"
proof -
  have h: "digits_here lit (lit @ ds @ rest) = Some ds"
    using assms(1) takeWhile_run [OF assms(2,3)] by (simp add: digits_here_def Let_def)
  obtain x xs where "lit @ ds @ rest = x # xs" using assms(1) by (cases "lit @ ds @ rest") auto
  then show ?thesis using h by simp
qed

lemma first_match_first_occurrence:
  assumes "\<not> contains_then lit is_digit (pre @ lit)" and "ds \<noteq> []"
    and "list_all is_digit ds" and "rest = [] \<or> \<not> is_digit (hd rest)"
  shows "first_match (digits_here lit) (pre @ lit @ ds @ rest) = Some ds"
  using first_match_skip [OF assms(1), of "ds @ rest"]
    first_match_at_start [OF assms(2,3,4), of lit] by simp

text \<open>Arithmetic on integers up to \<open>2^53\<close> is exact.\<close>

lemma safe_integer_of_nat: "n \<le> 2 ^ 53 \<Longrightarrow> safe_integer (of_nat n)"
proof -
  assume "n \<le> 2 ^ 53"
  then have "(of_nat n :: rat) \<le> of_nat (2 ^ 53)" by (simp only: of_nat_le_iff)
  then show ?thesis by (simp add: safe_integer_def)
qed

lemma safe_integer_pred: "n \<le> 2 ^ 53 \<Longrightarrow> safe_integer (of_nat n - 1)"
proof -
  assume a: "n \<le> 2 ^ 53"
  have e: "(of_nat n - 1 :: rat) = of_int (int n - 1)" by simp
  have "(of_nat n :: rat) \<le> of_nat (2 ^ 53)" using a by (simp only: of_nat_le_iff)
  then have "\<bar>of_nat n - 1 :: rat\<bar> \<le> 2 ^ 53" by (simp add: abs_le_iff)
  moreover have "of_int \<lfloor>of_nat n - 1 :: rat\<rfloor> = (of_nat n - 1 :: rat)"
    by (simp only: e floor_of_int)
  ultimately show ?thesis by (simp add: safe_integer_def)
qed

lemma safe_integer_succ: "n < 2 ^ 53 \<Longrightarrow> safe_integer (of_nat n + 1)"
proof -
  assume a: "n < 2 ^ 53"
  have e: "(of_nat n + 1 :: rat) = of_nat (Suc n)" by simp
  have "Suc n \<le> 2 ^ 53" using a by simp
  then show ?thesis unfolding e by (rule safe_integer_of_nat)
qed

lemma parseInt_minus_one:
  "digits_value ds \<le> 2 ^ 53 \<Longrightarrow>
   js_sub B (parseInt_digits B ds) (Fin 1) = Fin (of_nat (digits_value ds) - 1)"
  by (simp add: js_sub_def parseInt_digits_def to_number_def safe_integer_of_nat safe_integer_pred)

lemma parseInt_plus_one:
  "digits_value ds < 2 ^ 53 \<Longrightarrow>
   js_add B (parseInt_digits B ds) (Fin 1) = Fin (of_nat (digits_value ds) + 1)"
  by (simp add: parseInt_digits_def to_number_def safe_integer_of_nat safe_integer_succ)

lemma digits_value_10: "digits_value (js ''10'') = 10"
  by (simp add: digits_value_def js_def)

text \<open>
  Claim C4, as amended. In the second source file, when the leftmost place of the
  lowercased query where \<open>shorter than\<close>, a space and a digit follow one another goes on
  with the whole run of the digits of \<open>N\<close>, and \<open>N\<close> is at most \<open>2^53\<close>, then
  \<open>max_length\<close> is \<open>N - 1\<close>. \<open>index.js\<close> has no such pattern and never sets
  \<open>max_length\<close>.
\<close>

theorem shorter_than_pattern:
  assumes "toLowerCase B q = pre @ js ''shorter than '' @ ds @ rest"
    and "\<not> contains_then (js ''shorter than '') is_digit (pre @ js ''shorter than '')"
    and "ds \<noteq> []" and "list_all is_digit ds" and "rest = [] \<or> \<not> is_digit (hd rest)"
    and "digits_value ds \<le> 2 ^ 53"
  shows "f_max_length (interpret_part0 B q) = Some (VNum (Fin (of_nat (digits_value ds) - 1)))
         \<and> f_max_length (interpret_index B q') = None"
proof -
  have "match_shorter (toLowerCase B q) = Some ds"
    unfolding match_shorter_def assms(1)
    using assms(2,3,4,5) by (rule first_match_first_occurrence)
  then show ?thesis
    using parseInt_minus_one [OF assms(6), of B]
    by (simp add: interpret_part0_fields interpret_index_fields)
qed

theorem shorter_than_pattern_witness:
  "f_max_length (interpret_part0 test_builtins (js ''Strings Shorter Than 10 chars''))
     = Some (VNum (Fin 9))
   \<and> f_max_length (interpret_index test_builtins (js ''Strings Shorter Than 10 chars'')) = None"
proof -
  have 1: "toLowerCase test_builtins (js ''Strings Shorter Than 10 chars'')
      = js ''strings '' @ js ''shorter than '' @ js ''10'' @ js '' chars''"
    by (simp add: lower_eval js_def ascii_lower_unit_def)
  have 2: "\<not> contains_then (js ''shorter than '') is_digit
      (js ''strings '' @ js ''shorter than '')"
    by (simp add: js_def contains_then_def)
  have 3: "js ''10'' \<noteq> []" by (simp add: js_def)
  have 4: "list_all is_digit (js ''10'')" by (simp add: js_def is_digit_def)
  have 5: "js '' chars'' = [] \<or> \<not> is_digit (hd (js '' chars''))"
    by (simp add: js_def is_digit_def)
  have 6: "digits_value (js ''10'') \<le> 2 ^ 53" by (simp add: digits_value_10)
  show ?thesis
    using shorter_than_pattern [OF 1 2 3 4 5 6, of "js ''Strings Shorter Than 10 chars''"]
    by (simp add: digits_value_10)
qed

theorem shorter_than_pattern_counterexample:
  "sublist (js ''shorter than 10'') (toLowerCase test_builtins (js ''strings shorter than 10''))
   \<and> f_max_length (interpret_index test_builtins (js ''strings shorter than 10''))
       \<noteq> Some (VNum (Fin (10 - 1)))"
  by (simp add: interpret_index_fields lower_eval js_def ascii_lower_unit_def sublist_Cons_right)

lemma keys_count_zero:
  "keys_count f = 0 \<longleftrightarrow>
     f_is_palindrome f = None \<and> f_min_length f = None \<and> f_max_length f = None
     \<and> f_word_count f = None \<and> f_contains_character f = None"
  by (simp add: keys_count_def)

lemma match_longer_None: "match_longer s = None \<longleftrightarrow> \<not> contains_then (js ''longer than '') is_digit s"
  using match_digits_contains [of "js ''longer than ''" s] unfolding match_longer_def by auto

lemma match_shorter_None: "match_shorter s = None \<longleftrightarrow> \<not> contains_then (js ''shorter than '') is_digit s"
  using match_digits_contains [of "js ''shorter than ''" s] unfolding match_shorter_def by auto

lemma match_letter_None:
  "match_letter s = None \<longleftrightarrow> \<not> contains_then (js ''containing the letter '') is_word_char s"
  using match_word_char_contains [of "js ''containing the letter ''" s]
  unfolding match_letter_def by auto

lemma keys_count_part0: "keys_count (interpret_part0 B q) = 0 \<longleftrightarrow> \<not> recognized B q"
  by (simp add: keys_count_zero interpret_part0_fields recognized_def Let_def
      match_longer_None match_shorter_None match_letter_None)

lemma keys_count_index:
  "keys_count (interpret_index B q) = 0 \<longleftrightarrow>
     \<not> (sublist (js ''palindromic'') (toLowerCase B q)
        \<or> contains_then (js ''longer than '') is_digit (toLowerCase B q)
        \<or> sublist (js ''single word'') (toLowerCase B q)
        \<or> contains_then (js ''containing the letter '') is_word_char (toLowerCase B q)
        \<or> sublist (js ''containing the first vowel'') (toLowerCase B q))"
  by (simp add: keys_count_zero interpret_index_fields match_longer_None match_letter_None)

lemma keys_count_recognized: "keys_count (interpreter V B q) \<noteq> 0 \<Longrightarrow> recognized B q"
proof (cases V)
  case Index_js
  assume "keys_count (interpreter V B q) \<noteq> 0"
  then have "sublist (js ''palindromic'') (toLowerCase B q)
        \<or> contains_then (js ''longer than '') is_digit (toLowerCase B q)
        \<or> sublist (js ''single word'') (toLowerCase B q)
        \<or> contains_then (js ''containing the letter '') is_word_char (toLowerCase B q)
        \<or> sublist (js ''containing the first vowel'') (toLowerCase B q)"
    using Index_js keys_count_index [of B q] by simp
  then show ?thesis by (auto simp: recognized_def Let_def)
next
  case Part_000
  assume "keys_count (interpreter V B q) \<noteq> 0"
  then show ?thesis using Part_000 keys_count_part0 [of B q] by simp
qed

text \<open>Both handlers as one case distinction.\<close>

lemma naturalLanguage_eq:
  "naturalLanguage V B st query =
     (case query of
        None \<Rightarrow> respond 400 (ErrorBody ''Missing 'query' parameter'')
      | Some q \<Rightarrow>
          if q = [] then respond 400 (ErrorBody ''Missing 'query' parameter'')
          else if keys_count (interpreter V B q) = 0
          then respond 400 (ErrorBody ''Unable to parse natural language query'')
          else respond 200
            (InterpretedBody (applyFilters V B (select_all st) (interpreter V B q))
               (length (applyFilters V B (select_all st) (interpreter V B q))) q
               (interpreter V B q)))"
  by (cases V)
    (simp_all add: naturalLanguage_index_def naturalLanguage_part0_def Let_def
      split: option.splits)

text \<open>
  Claim C7, as amended. In both source files a 200 carries the parsed FilterSet, which
  has at least one field, and is given only to a query that matches a recognized
  pattern; every other answer is a 400. In the second source file a query that is not
  empty gets the answer of the unparsable query exactly when none of the six recognized
  patterns matches, and a 200 otherwise. In \<open>index.js\<close> it gets that answer exactly when none of five of
  them matches: \<open>palindromic\<close>, \<open>longer than N\<close>, \<open>single word\<close>,
  \<open>containing the letter X\<close> and \<open>containing the first vowel\<close>.
\<close>

theorem unparsable_iff_no_pattern:
  "(status (naturalLanguage V B st query) = 200 \<longrightarrow>
        (\<exists>q. query = Some q \<and> q \<noteq> [] \<and> recognized B q
           \<and> body (naturalLanguage V B st query)
               = InterpretedBody (applyFilters V B (select_all st) (interpreter V B q))
                   (length (applyFilters V B (select_all st) (interpreter V B q))) q
                   (interpreter V B q)
           \<and> 0 < keys_count (interpreter V B q)))
   \<and> (status (naturalLanguage V B st query) \<noteq> 200 \<longrightarrow>
        status (naturalLanguage V B st query) = 400)
   \<and> (q \<noteq> [] \<longrightarrow>
        (naturalLanguage Part_000 B st (Some q)
           = respond 400 (ErrorBody ''Unable to parse natural language query'')
         \<longleftrightarrow> \<not> recognized B q))
   \<and> (q \<noteq> [] \<longrightarrow>
        (naturalLanguage Index_js B st (Some q)
           = respond 400 (ErrorBody ''Unable to parse natural language query'')
         \<longleftrightarrow> \<not> (sublist (js ''palindromic'') (toLowerCase B q)
                \<or> contains_then (js ''longer than '') is_digit (toLowerCase B q)
                \<or> sublist (js ''single word'') (toLowerCase B q)
                \<or> contains_then (js ''containing the letter '') is_word_char (toLowerCase B q)
                \<or> sublist (js ''containing the first vowel'') (toLowerCase B q))))
   \<and> (q \<noteq> [] \<and> recognized B q \<longrightarrow>
        status (naturalLanguage Part_000 B st (Some q)) = 200)"
proof -
  have a: "status (naturalLanguage V B st query) = 200 \<longrightarrow>
        (\<exists>q. query = Some q \<and> q \<noteq> [] \<and> recognized B q
           \<and> body (naturalLanguage V B st query)
               = InterpretedBody (applyFilters V B (select_all st) (interpreter V B q))
                   (length (applyFilters V B (select_all st) (interpreter V B q))) q
                   (interpreter V B q)
           \<and> 0 < keys_count (interpreter V B q))"
  proof (cases query)
    case None
    then show ?thesis by (simp add: naturalLanguage_eq respond_def)
  next
    case (Some q')
    show ?thesis
      using keys_count_recognized [of V B q']
      by (simp add: Some naturalLanguage_eq respond_def)
  qed
  have b: "status (naturalLanguage V B st query) \<noteq> 200 \<longrightarrow>
        status (naturalLanguage V B st query) = 400"
    by (cases query) (simp_all add: naturalLanguage_eq respond_def)
  have k0: "interpreter Part_000 B q = interpret_part0 B q" by simp
  have k1: "interpreter Index_js B q = interpret_index B q" by simp
  have c: "q \<noteq> [] \<longrightarrow>
        (naturalLanguage Part_000 B st (Some q)
           = respond 400 (ErrorBody ''Unable to parse natural language query'')
         \<longleftrightarrow> \<not> recognized B q)"
    using keys_count_part0 [of B q]
    by (subst naturalLanguage_eq) (simp add: respond_def)
  have d: "q \<noteq> [] \<longrightarrow>
        (naturalLanguage Index_js B st (Some q)
           = respond 400 (ErrorBody ''Unable to parse natural language query'')
         \<longleftrightarrow> \<not> (sublist (js ''palindromic'') (toLowerCase B q)
                \<or> contains_then (js ''longer than '') is_digit (toLowerCase B q)
                \<or> sublist (js ''single word'') (toLowerCase B q)
                \<or> contains_then (js ''containing the letter '') is_word_char (toLowerCase B q)
                \<or> sublist (js ''containing the first vowel'') (toLowerCase B q)))"
    using keys_count_index [of B q]
    by (subst naturalLanguage_eq) (simp add: respond_def)
  have e: "q \<noteq> [] \<and> recognized B q \<longrightarrow>
        status (naturalLanguage Part_000 B st (Some q)) = 200"
    using keys_count_part0 [of B q]
    by (subst naturalLanguage_eq) (simp add: respond_def)
  from a b c d e show ?thesis by (intro conjI)
qed

theorem unparsable_iff_no_pattern_witness:
  "naturalLanguage Index_js test_builtins [] (Some (js ''xyz''))
     = respond 400 (ErrorBody ''Unable to parse natural language query'')
   \<and> naturalLanguage Part_000 test_builtins [] (Some (js ''xyz''))
     = respond 400 (ErrorBody ''Unable to parse natural language query'')
   \<and> status (naturalLanguage Part_000 test_builtins []
        (Some (js ''single word palindromic strings''))) = 200"
proof -
  have 1: "js ''xyz'' \<noteq> []" "js ''single word palindromic strings'' \<noteq> []"
    by (simp_all add: js_def)
  have 2: "\<not> recognized test_builtins (js ''xyz'')"
    by (simp add: recognized_def contains_then_def lower_eval js_def ascii_lower_unit_def
        sublist_Cons_right)
  have 3: "recognized test_builtins (js ''single word palindromic strings'')"
    by (simp add: recognized_def lower_eval js_def ascii_lower_unit_def sublist_Cons_right)
  have 4: "\<not> (sublist (js ''palindromic'') (toLowerCase test_builtins (js ''xyz''))
        \<or> contains_then (js ''longer than '') is_digit (toLowerCase test_builtins (js ''xyz''))
        \<or> sublist (js ''single word'') (toLowerCase test_builtins (js ''xyz''))
        \<or> contains_then (js ''containing the letter '') is_word_char
             (toLowerCase test_builtins (js ''xyz''))
        \<or> sublist (js ''containing the first vowel'') (toLowerCase test_builtins (js ''xyz'')))"
    by (simp add: contains_then_def lower_eval js_def ascii_lower_unit_def sublist_Cons_right)
  note x = unparsable_iff_no_pattern [of Index_js test_builtins "[]" "Some (js ''xyz'')"
      "js ''xyz''"]
  note y = unparsable_iff_no_pattern [of Part_000 test_builtins "[]"
      "Some (js ''single word palindromic strings'')" "js ''single word palindromic strings''"]
  have a: "naturalLanguage Index_js test_builtins [] (Some (js ''xyz''))
     = respond 400 (ErrorBody ''Unable to parse natural language query'')"
    using x 1(1) 4 by blast
  have b: "naturalLanguage Part_000 test_builtins [] (Some (js ''xyz''))
     = respond 400 (ErrorBody ''Unable to parse natural language query'')"
    using x 1(1) 2 by blast
  have c: "status (naturalLanguage Part_000 test_builtins []
        (Some (js ''single word palindromic strings''))) = 200"
    using y 1(2) 3 by blast
  from a b c show ?thesis by (intro conjI)
qed

text \<open>
  The query \<open>palindrome strings\<close> matches the first recognized pattern, and \<open>index.js\<close>
  answers that it cannot parse it.
\<close>

theorem unparsable_iff_no_pattern_counterexample:
  "recognized test_builtins (js ''palindrome strings'')
   \<and> naturalLanguage Index_js test_builtins [] (Some (js ''palindrome strings''))
       = respond 400 (ErrorBody ''Unable to parse natural language query'')"
proof -
  have r: "recognized test_builtins (js ''palindrome strings'')"
    by (simp add: recognized_def lower_eval js_def ascii_lower_unit_def sublist_Cons_right)
  have n: "js ''palindrome strings'' \<noteq> []" by (simp add: js_def)
  have "\<not> (sublist (js ''palindromic'') (toLowerCase test_builtins (js ''palindrome strings''))
        \<or> contains_then (js ''longer than '') is_digit
             (toLowerCase test_builtins (js ''palindrome strings''))
        \<or> sublist (js ''single word'') (toLowerCase test_builtins (js ''palindrome strings''))
        \<or> contains_then (js ''containing the letter '') is_word_char
             (toLowerCase test_builtins (js ''palindrome strings''))
        \<or> sublist (js ''containing the first vowel'')
             (toLowerCase test_builtins (js ''palindrome strings'')))"
    by (simp add: contains_then_def lower_eval js_def ascii_lower_unit_def sublist_Cons_right)
  then have k: "keys_count (interpreter Index_js test_builtins (js ''palindrome strings'')) = 0"
    by (simp only: interpreter.simps keys_count_index simp_thms)
  have "naturalLanguage Index_js test_builtins [] (Some (js ''palindrome strings''))
       = respond 400 (ErrorBody ''Unable to parse natural language query'')"
    by (subst naturalLanguage_eq) (use n k in simp)
  with r show ?thesis by simp
qed

section \<open>Properties of the handlers\<close>

lemma find_route_post:
  "find_route routes POST [js ''strings''] = Some (PostStrings, [])"
  by (simp add: routes_def js_def)

lemma select_by_id_None: "select_by_id st i = None \<longleftrightarrow> \<not> list_ex (\<lambda>r. r_id r = i) st"
  by (auto simp: select_by_id_def find_None_iff list_ex_iff)

lemma select_by_id_append:
  "select_by_id st i = None \<Longrightarrow> r_id r = i \<Longrightarrow> select_by_id (st @ [r]) i = Some r"
  by (induction st) (auto simp: select_by_id_def split: if_splits)

lemma postStrings_present:
  "select_by_id st (sha256_hex B v) \<noteq> None \<Longrightarrow>
   postStrings B st (Some (JString v)) now
     = (respond 409 (ErrorBody ''String already exists in the system''), st)"
  by (auto simp: postStrings_def computeProperties_def Let_def)

lemma postStrings_absent:
  "select_by_id st (sha256_hex B v) = None \<Longrightarrow>
   postStrings B st (Some (JString v)) now
     = (respond 201 (RecordBody \<lparr> r_id = sha256_hex B v, r_value = v,
           r_properties = computeProperties B v, r_created_at = now \<rparr>),
        st @ [\<lparr> r_id = sha256_hex B v, r_value = v,
           r_properties = computeProperties B v, r_created_at = now \<rparr>])"
proof -
  assume a: "select_by_id st (sha256_hex B v) = None"
  have h: "p_sha256_hash (computeProperties B v) = sha256_hex B v"
    by (simp add: computeProperties_def Let_def)
  have "\<not> list_ex (\<lambda>x. r_id x = sha256_hex B v) st" using a by (simp add: select_by_id_None)
  then show ?thesis using a by (simp add: postStrings_def Let_def h insert_row_def)
qed

lemma handle_well_formed:
  assumes "well_formed B st"
  shows "well_formed B (snd (handle V B st now req))"
proof -
  have post: "well_formed B (snd (postStrings B st v now))" for v
    using assms
    by (auto simp: postStrings_def Let_def insert_row_def well_formed_def computeProperties_def
        split: option.splits json_value.splits sum.splits if_splits)
  have del: "well_formed B (snd (deleteStringValue B st raw))" for raw
    using assms
    by (auto simp: deleteStringValue_def Let_def delete_by_id_def well_formed_def list_all_iff
        split: option.splits)
  show ?thesis
    using assms post del
    by (auto simp: handle_def run_handler_def split: option.splits handler.splits list.splits)
qed

lemma reachable_well_formed: "reachable V B st \<Longrightarrow> well_formed B st"
proof (induction rule: reachable.induct)
  case start
  show ?case by (simp add: well_formed_def)
next
  case (step st now req)
  then show ?case by (intro handle_well_formed)
qed

lemma postStrings_twice:
  "postStrings B (snd (postStrings B st (Some (JString v)) t1)) (Some (JString v)) t2
     = (respond 409 (ErrorBody ''String already exists in the system''),
        snd (postStrings B st (Some (JString v)) t1))"
proof (cases "select_by_id st (sha256_hex B v)")
  case None
  let ?r = "\<lparr> r_id = sha256_hex B v, r_value = v,
           r_properties = computeProperties B v, r_created_at = t1 \<rparr>"
  have "select_by_id (st @ [?r]) (sha256_hex B v) = Some ?r"
    using None by (intro select_by_id_append) simp_all
  then have "select_by_id (st @ [?r]) (sha256_hex B v) \<noteq> None" by simp
  from postStrings_present [OF this] show ?thesis
    by (simp add: postStrings_absent [OF None])
next
  case (Some r)
  then have p: "select_by_id st (sha256_hex B v) \<noteq> None" by simp
  show ?thesis by (simp add: postStrings_present [OF p])
qed

text \<open>
  Claim C8. A \<open>POST /strings\<close> of a value that the store already holds is answered 409
  and leaves the store as it was, for every store the application can reach from the
  empty one (and every store where each \<open>id\<close> is the hash of its value); and whatever
  the store, a second \<open>POST\<close> of the value of a first one is answered 409 and leaves the
  store as the first one left it.
\<close>

theorem duplicate_post_conflict:
  assumes "req_method req = POST" and "req_path req = [js ''strings'']"
    and "req_value req = Some (JString v)"
  shows "((reachable V B st \<or> well_formed B st) \<and> list_ex (\<lambda>r. r_value r = v) st
            \<longrightarrow> handle V B st now req
                  = (respond 409 (ErrorBody ''String already exists in the system''), st))
         \<and> handle V B (snd (handle V B st now req)) later req
             = (respond 409 (ErrorBody ''String already exists in the system''),
                snd (handle V B st now req))"
proof -
  have h: "handle V B s t req = postStrings B s (Some (JString v)) t" for s t
    using assms by (simp add: handle_def find_route_post run_handler_def)
  have "select_by_id st (sha256_hex B v) \<noteq> None"
    if "reachable V B st \<or> well_formed B st" and "list_ex (\<lambda>r. r_value r = v) st"
  proof -
    have "well_formed B st" using that(1) reachable_well_formed by blast
    then show ?thesis
      using that(2) by (auto simp: select_by_id_None list_ex_iff well_formed_def list_all_iff)
  qed
  then show ?thesis
    using postStrings_present [of st B v now] postStrings_twice [of B st v now later]
    by (auto simp: h)
qed

text \<open>
  The store of the witness holds \<open>abc\<close>; the second part posts \<open>hello\<close> twice to an
  empty store.
\<close>

theorem duplicate_post_conflict_witness:
  "handle Index_js test_builtins [stored (js ''abc'')] (js ''2025-10-21T08:00:00.000Z'')
      \<lparr> req_method = POST, req_path = [js ''strings''], req_query = Map.empty,
        req_value = Some (JString (js ''abc'')) \<rparr>
     = (respond 409 (ErrorBody ''String already exists in the system''), [stored (js ''abc'')])
   \<and> fst (handle Part_000 test_builtins [] (js ''2025-10-21T08:00:00.000Z'')
      \<lparr> req_method = POST, req_path = [js ''strings''], req_query = Map.empty,
        req_value = Some (JString (js ''hello'')) \<rparr>)
     = respond 201 (RecordBody \<lparr> r_id = js ''hello'', r_value = js ''hello'',
         r_properties = computeProperties test_builtins (js ''hello''),
         r_created_at = js ''2025-10-21T08:00:00.000Z'' \<rparr>)
   \<and> fst (handle Part_000 test_builtins
       (snd (handle Part_000 test_builtins [] (js ''2025-10-21T08:00:00.000Z'')
         \<lparr> req_method = POST, req_path = [js ''strings''], req_query = Map.empty,
           req_value = Some (JString (js ''hello'')) \<rparr>))
       (js ''2025-10-21T08:00:01.000Z'')
       \<lparr> req_method = POST, req_path = [js ''strings''], req_query = Map.empty,
         req_value = Some (JString (js ''hello'')) \<rparr>)
     = respond 409 (ErrorBody ''String already exists in the system'')"
proof -
  let ?abc = "\<lparr> req_method = POST, req_path = [js ''strings''], req_query = Map.empty,
        req_value = Some (JString (js ''abc'')) \<rparr>"
  let ?hello = "\<lparr> req_method = POST, req_path = [js ''strings''], req_query = Map.empty,
        req_value = Some (JString (js ''hello'')) \<rparr>"
  have w: "well_formed test_builtins [stored (js ''abc'')]"
    by (simp add: well_formed_def stored_def)
  have p: "list_ex (\<lambda>r. r_value r = js ''abc'') [stored (js ''abc'')]"
    by (simp add: stored_def)
  have e: "select_by_id [] (sha256_hex test_builtins (js ''hello'')) = None"
    by (simp add: select_by_id_def)
  have first: "fst (handle Part_000 test_builtins [] (js ''2025-10-21T08:00:00.000Z'') ?hello)
     = respond 201 (RecordBody \<lparr> r_id = js ''hello'', r_value = js ''hello'',
         r_properties = computeProperties test_builtins (js ''hello''),
         r_created_at = js ''2025-10-21T08:00:00.000Z'' \<rparr>)"
    by (simp add: handle_def find_route_post run_handler_def postStrings_absent [OF e])
      (simp add: test_builtins_def)
  show ?thesis
    using duplicate_post_conflict [of ?abc "js ''abc''" Index_js test_builtins
        "[stored (js ''abc'')]" "js ''2025-10-21T08:00:00.000Z''"]
      duplicate_post_conflict [of ?hello "js ''hello''" Part_000 test_builtins "[]"
        "js ''2025-10-21T08:00:00.000Z''" "js ''2025-10-21T08:00:01.000Z''"]
      w p first
    by simp
qed

lemma find_route_nl:
  "find_route routes GET [js ''strings'', js ''filter-by-natural-language'']
     = Some (GetStringValue, [js ''filter-by-natural-language''])"
  by (simp add: routes_def js_def)

lemma decode_nl:
  "decodeURIComponent B (js ''filter-by-natural-language'') = Some (js ''filter-by-natural-language'')"
  by (simp add: decodeURIComponent_def js_def)

text \<open>
  Claim C1, which the code breaks. A \<open>GET\<close> of \<open>/strings/filter-by-natural-language\<close>
  is answered by the handler of \<open>/strings/:string_value\<close>, registered first: 404 when
  the string \<open>filter-by-natural-language\<close> is not stored, 200 with that record when it
  is, whatever the query; the natural-language handler is never run.
\<close>

theorem natural_language_route_shadowed:
  assumes "req_method req = GET"
    and "req_path req = [js ''strings'', js ''filter-by-natural-language'']"
  shows "handle V B st now req
           = ((case select_by_id st (sha256_hex B (js ''filter-by-natural-language'')) of
                 None \<Rightarrow> respond 404 (ErrorBody ''String not found'')
               | Some r \<Rightarrow> respond 200 (RecordBody r)), st)"
proof -
  have "js ''filter-by-natural-language'' \<noteq> []" by (simp add: js_def)
  then show ?thesis
    using assms
    by (simp add: handle_def find_route_nl run_handler_def decode_nl getStringValue_def)
qed

text \<open>
  On an empty store the request \<open>?query=palindromic strings\<close> is answered 404, where
  the natural-language handler would answer 200.
\<close>

theorem natural_language_route_shadowed_witness:
  "handle Part_000 test_builtins [] (js ''2025-10-21T08:00:00.000Z'')
      \<lparr> req_method = GET, req_path = [js ''strings'', js ''filter-by-natural-language''],
        req_query = [''query'' \<mapsto> js ''palindromic strings''], req_value = None \<rparr>
     = (respond 404 (ErrorBody ''String not found''), [])
   \<and> status (naturalLanguage Part_000 test_builtins [] (Some (js ''palindromic strings'')))
       = 200"
proof -
  have r: "recognized test_builtins (js ''palindromic strings'')"
    by (simp add: recognized_def lower_eval js_def ascii_lower_unit_def sublist_Cons_right)
  have n: "js ''palindromic strings'' \<noteq> []" by (simp add: js_def)
  have k: "keys_count (interpreter Part_000 test_builtins (js ''palindromic strings'')) \<noteq> 0"
    using r by (simp only: interpreter.simps keys_count_part0 simp_thms)
  have s: "status (naturalLanguage Part_000 test_builtins [] (Some (js ''palindromic strings'')))
       = 200"
    by (subst naturalLanguage_eq) (use n k in \<open>simp add: respond_def\<close>)
  have e: "select_by_id [] i = None" for i by (simp add: select_by_id_def)
  show ?thesis
    using natural_language_route_shadowed [of "\<lparr> req_method = GET,
        req_path = [js ''strings'', js ''filter-by-natural-language''],
        req_query = [''query'' \<mapsto> js ''palindromic strings''], req_value = None \<rparr>"
        Part_000 test_builtins "[]" "js ''2025-10-21T08:00:00.000Z''"] s
    by (simp add: e)
qed


end
